theory Spec2Isabelle
  imports Complex_Main
begin

section \<open>JavaScript numbers\<close>

text \<open>
  The module computes on JavaScript Numbers (IEEE 754 binary64).  A Number is modelled as a
  finite real or one of the three special values.  The special values follow IEEE 754; a
  finite result whose magnitude reaches the overflow threshold of binary64 becomes an
  infinity and one at or below half the least subnormal becomes zero.  Between these two
  bounds a finite result is kept as the exact real: the rounding of the significand to 53
  bits is not part of the model (it is what the specification calls floating-point
  tolerance).  The two zeros are identified and a zero divisor counts as \<open>+0\<close>: in this
  module every divisor is either a constant or replaced by \<open>1.0\<close> when it is zero, and
  \<open>===\<close> does not tell the zeros apart.
\<close>

datatype jsnum = Fin real | PInf | NInf | NaN

definition OVERFLOW_THRESHOLD :: real where
  "OVERFLOW_THRESHOLD = 2 ^ 1024 - 2 ^ 970"

definition UNDERFLOW_THRESHOLD :: real where
  "UNDERFLOW_THRESHOLD = 1 / 2 ^ 1075"

definition rnd :: "real \<Rightarrow> jsnum" where
  "rnd x =
     (if OVERFLOW_THRESHOLD \<le> x then PInf
      else if x \<le> - OVERFLOW_THRESHOLD then NInf
      else if \<bar>x\<bar> \<le> UNDERFLOW_THRESHOLD then Fin 0
      else Fin x)"

definition in_range :: "real \<Rightarrow> bool" where
  "in_range x \<longleftrightarrow> x = 0 \<or> (UNDERFLOW_THRESHOLD < \<bar>x\<bar> \<and> \<bar>x\<bar> < OVERFLOW_THRESHOLD)"

text \<open>The operators \<open>+\<close>, \<open>-\<close>, \<open>*\<close> and \<open>/\<close> on Numbers.\<close>

fun jadd :: "jsnum \<Rightarrow> jsnum \<Rightarrow> jsnum" where
  "jadd NaN _ = NaN"
| "jadd _ NaN = NaN"
| "jadd PInf NInf = NaN"
| "jadd NInf PInf = NaN"
| "jadd PInf _ = PInf"
| "jadd _ PInf = PInf"
| "jadd NInf _ = NInf"
| "jadd _ NInf = NInf"
| "jadd (Fin x) (Fin y) = rnd (x + y)"

fun jsub :: "jsnum \<Rightarrow> jsnum \<Rightarrow> jsnum" where
  "jsub NaN _ = NaN"
| "jsub _ NaN = NaN"
| "jsub PInf PInf = NaN"
| "jsub NInf NInf = NaN"
| "jsub PInf _ = PInf"
| "jsub _ PInf = NInf"
| "jsub NInf _ = NInf"
| "jsub _ NInf = PInf"
| "jsub (Fin x) (Fin y) = rnd (x - y)"

fun jmul :: "jsnum \<Rightarrow> jsnum \<Rightarrow> jsnum" where
  "jmul NaN _ = NaN"
| "jmul _ NaN = NaN"
| "jmul PInf PInf = PInf"
| "jmul PInf NInf = NInf"
| "jmul NInf PInf = NInf"
| "jmul NInf NInf = PInf"
| "jmul PInf (Fin y) = (if y = 0 then NaN else if 0 < y then PInf else NInf)"
| "jmul NInf (Fin y) = (if y = 0 then NaN else if 0 < y then NInf else PInf)"
| "jmul (Fin x) PInf = (if x = 0 then NaN else if 0 < x then PInf else NInf)"
| "jmul (Fin x) NInf = (if x = 0 then NaN else if 0 < x then NInf else PInf)"
| "jmul (Fin x) (Fin y) = rnd (x * y)"

fun jdiv :: "jsnum \<Rightarrow> jsnum \<Rightarrow> jsnum" where
  "jdiv NaN _ = NaN"
| "jdiv _ NaN = NaN"
| "jdiv PInf PInf = NaN"
| "jdiv PInf NInf = NaN"
| "jdiv NInf PInf = NaN"
| "jdiv NInf NInf = NaN"
| "jdiv PInf (Fin y) = (if 0 \<le> y then PInf else NInf)"
| "jdiv NInf (Fin y) = (if 0 \<le> y then NInf else PInf)"
| "jdiv (Fin x) PInf = Fin 0"
| "jdiv (Fin x) NInf = Fin 0"
| "jdiv (Fin x) (Fin y) =
     (if y = 0 then (if x = 0 then NaN else if 0 < x then PInf else NInf)
      else rnd (x / y))"

text \<open>The global functions \<open>isFinite\<close> and \<open>isNaN\<close>, and \<open>Math.pow(10, x)\<close>.\<close>

fun isFinite :: "jsnum \<Rightarrow> bool" where
  "isFinite (Fin _) = True"
| "isFinite _ = False"

fun isNaN :: "jsnum \<Rightarrow> bool" where
  "isNaN NaN = True"
| "isNaN _ = False"

fun Math_pow_10 :: "jsnum \<Rightarrow> jsnum" where
  "Math_pow_10 (Fin y) = rnd (10 powr y)"
| "Math_pow_10 PInf = PInf"
| "Math_pow_10 NInf = Fin 0"
| "Math_pow_10 NaN = NaN"

fun finite_positive :: "jsnum \<Rightarrow> bool" where
  "finite_positive (Fin x) = (0 < x)"
| "finite_positive _ = False"

section \<open>The numeric utilities\<close>

text \<open>
  Modelled from the spec: \<open>utils.log10\<close> of \<open>dygraph-utils\<close>, which is imported by the
  module but is not among the sources: the base-10 logarithm, domain-safe, a non-positive
  input yielding a non-finite result (negative infinity or NaN) rather than throwing.  Zero
  gives negative infinity and a negative number gives NaN, as \<open>Math.log\<close> does.
\<close>

fun log10 :: "jsnum \<Rightarrow> jsnum" where
  "log10 (Fin x) = (if 0 < x then Fin (log 10 x) else if x = 0 then NInf else NaN)"
| "log10 PInf = PInf"
| "log10 NInf = NaN"
| "log10 NaN = NaN"

text \<open>
  Modelled from the spec: \<open>utils.logRangeFraction\<close> of \<open>dygraph-utils\<close>, not among the
  sources: the data value at logarithmic-interpolation fraction \<open>pct\<close> between two
  positive bounds, that is ten to the power of the interpolated logarithm.
\<close>

definition logRangeFraction :: "jsnum \<Rightarrow> jsnum \<Rightarrow> jsnum \<Rightarrow> jsnum" where
  "logRangeFraction r0 r1 pct =
     (let logr0 = log10 r0;
          logr1 = log10 r1;
          exponent = jadd logr0 (jmul pct (jsub logr1 logr0))
      in Math_pow_10 exponent)"

section \<open>The graph collaborator\<close>

text \<open>
  Of the graph only \<open>graph.attributes_.getForAxis(name, axis)\<close> is used, and its result only
  under \<open>!\<close>; the option value is therefore modelled by its truthiness.  The field
  \<open>attributes_\<close> is written \<open>attributes\<close>.
\<close>

record DygraphOptions =
  getForAxis :: "string \<Rightarrow> nat \<Rightarrow> bool"

record graph =
  attributes :: DygraphOptions

abbreviation logscale :: "graph \<Rightarrow> nat \<Rightarrow> bool" where
  "logscale g axis \<equiv> getForAxis (attributes g) ''logscale'' axis"

text \<open>A stand-in graph all of whose axes have the scale kind given.\<close>

definition stub_graph :: "bool \<Rightarrow> graph" where
  "stub_graph b =
     \<lparr>attributes = \<lparr>getForAxis = (\<lambda>name axis. name = ''logscale'' \<and> b)\<rparr>\<rparr>"

section \<open>DygraphDefaultScale\<close>

text \<open>
  The five functions of \<open>dygraph-default-scale.js\<close>.  The values with which the source
  seeds \<open>range_value\<close> and \<open>scaled_value\<close> are overwritten on every path before they are
  read, so the variables are bound once here; \<open>x === 0\<close> is \<open>x = Fin 0\<close>.
\<close>

definition scaledValueToDataPoint :: "graph \<Rightarrow> nat \<Rightarrow> jsnum \<Rightarrow> jsnum" where
  "scaledValueToDataPoint g axis sv =
     (if \<not> getForAxis (attributes g) ''logscale'' axis then sv
      else Math_pow_10 sv)"

definition dataPointToScaledValue :: "graph \<Rightarrow> nat \<Rightarrow> jsnum \<Rightarrow> jsnum" where
  "dataPointToScaledValue g axis v =
     (if \<not> getForAxis (attributes g) ''logscale'' axis then v
      else log10 v)"

definition relativeScaledValueToDataPoint ::
  "graph \<Rightarrow> nat \<Rightarrow> jsnum \<Rightarrow> jsnum \<Rightarrow> jsnum \<Rightarrow> bool \<Rightarrow> jsnum" where
  "relativeScaledValueToDataPoint g axis rsv range_start range_end invert =
     (let range_width = jsub range_end range_start
      in if \<not> getForAxis (attributes g) ''logscale'' axis then
           (if invert then jsub range_end (jmul rsv range_width)
            else jadd range_start (jmul rsv range_width))
         else
           (if invert then logRangeFraction range_end range_start rsv
            else logRangeFraction range_start range_end rsv))"

definition dataPointToRelativeScaledValue ::
  "graph \<Rightarrow> nat \<Rightarrow> jsnum \<Rightarrow> jsnum \<Rightarrow> jsnum \<Rightarrow> bool \<Rightarrow> jsnum" where
  "dataPointToRelativeScaledValue g axis v range_start range_end invert =
     (let scaled_value =
        (if \<not> getForAxis (attributes g) ''logscale'' axis then
           (let range_width = jsub range_end range_start;
                range_width = (if range_width = Fin 0 then Fin 1 else range_width)
            in jdiv (jsub v range_start) range_width)
         else
           (let log_range_start = log10 range_start;
                log_range_end = log10 range_end;
                log_range_width = jsub log_range_end log_range_start;
                log_range_width = (if log_range_width = Fin 0 then Fin 1 else log_range_width);
                scaled_value = jdiv (jsub (log10 v) log_range_start) log_range_width
            in if \<not> isFinite scaled_value then NaN else scaled_value))
      in if invert then jsub (Fin 1) scaled_value else scaled_value)"

definition rangeError :: "graph \<Rightarrow> nat \<Rightarrow> jsnum \<Rightarrow> jsnum \<Rightarrow> bool" where
  "rangeError g axis range_start range_end =
     (if \<not> getForAxis (attributes g) ''logscale'' axis then False
      else
        (let log_range_start = log10 range_start;
             log_range_end = log10 range_end;
             log_range_width = jsub log_range_end log_range_start;
             log_range_width = (if log_range_width = Fin 0 then Fin 1 else log_range_width);
             log_scale = jdiv (Fin 1) log_range_width
         in if \<not> isFinite log_scale \<or> isNaN log_scale \<or>
               \<not> isFinite log_range_width \<or> isNaN log_range_width
            then True else False))"

section \<open>Exact arithmetic\<close>

text \<open>
  The finite doubles are the numbers \<open>m * 2^e\<close> with an integer \<open>m\<close> of magnitude below
  \<open>2^53\<close> and \<open>-1074 \<le> e \<le> 971\<close>.  The operators \<open>+\<close>, \<open>-\<close>, \<open>*\<close> and \<open>/\<close> are
  correctly rounded, so an operation whose exact result is a double returns that result,
  in the program as in the model.
\<close>

definition representable :: "real \<Rightarrow> bool" where
  "representable x \<longleftrightarrow>
     (\<exists>(m::int) (k::nat). \<bar>m\<bar> < 2 ^ 53 \<and> k \<le> 2045 \<and> x = of_int m * 2 ^ k / 2 ^ 1074)"

text \<open>
  The inputs and the intermediate results of a round trip through
  \<open>relativeScaledValueToDataPoint\<close> and \<open>dataPointToRelativeScaledValue\<close> on a linear axis,
  in the order in which the source computes them, are all doubles.
\<close>

definition linear_exact :: "real \<Rightarrow> real \<Rightarrow> real \<Rightarrow> bool \<Rightarrow> bool" where
  "linear_exact a b r invert \<longleftrightarrow>
     representable a \<and> representable b \<and> representable r \<and>
     representable (b - a) \<and> representable (r * (b - a)) \<and>
     (if invert
      then representable (b - r * (b - a)) \<and> representable (b - r * (b - a) - a) \<and>
           representable (1 - r)
      else representable (a + r * (b - a)))"

section \<open>Facts about the number model\<close>

lemma rnd_in_range: "in_range x \<Longrightarrow> rnd x = Fin x"
  by (auto simp add: rnd_def in_range_def OVERFLOW_THRESHOLD_def UNDERFLOW_THRESHOLD_def)

lemma stub_graph_logscale [simp]: "logscale (stub_graph b) axis = b"
  by (simp add: stub_graph_def)

lemma rnd_0 [simp]: "rnd 0 = Fin 0"
  by (simp add: rnd_def OVERFLOW_THRESHOLD_def UNDERFLOW_THRESHOLD_def)

lemma rnd_1 [simp]: "rnd 1 = Fin 1"
  by (simp add: rnd_def OVERFLOW_THRESHOLD_def UNDERFLOW_THRESHOLD_def)

lemma rnd_not_NaN [simp]: "rnd x \<noteq> NaN"
  by (simp add: rnd_def)

lemma log10_100: "log 10 (100::real) = 2"
proof -
  have "log 10 (100::real) = log 10 (10 ^ 2)" by simp
  also have "\<dots> = 2" by (subst log_pow_cancel) simp_all
  finally show ?thesis .
qed

lemma log10_1000: "log 10 (1000::real) = 3"
proof -
  have "log 10 (1000::real) = log 10 (10 ^ 3)" by simp
  also have "\<dots> = 3" by (subst log_pow_cancel) simp_all
  finally show ?thesis .
qed

lemma jsub_nonfinite: "\<not> isFinite a \<Longrightarrow> \<not> isFinite (jsub a b)"
  by (cases a; cases b) simp_all

lemma jdiv_nonfinite: "\<not> isFinite a \<Longrightarrow> \<not> isFinite (jdiv a b)"
  by (cases a; cases b) simp_all

lemma rnd_cases: "rnd x = PInf \<or> rnd x = NInf \<or> (\<exists>y. rnd x = Fin y)"
  by (simp add: rnd_def)

lemma jsub_1_rnd_not_NaN: "jsub (Fin 1) (rnd x) \<noteq> NaN"
  using rnd_cases [of x] by auto

lemma jdiv_rnd_1: "jdiv (rnd x) (Fin 1) = rnd x"
  by (auto simp add: rnd_def rnd_in_range in_range_def OVERFLOW_THRESHOLD_def UNDERFLOW_THRESHOLD_def)

lemma pow_400: "(10::real) powr 400 = 10 ^ 400"
  by (rule powr_numeral) simp

lemma pow_m400: "(10::real) powr (- 400) = inverse (10 ^ 400)"
proof -
  have "(10::real) powr (- 400) = inverse (10 powr 400)" by (rule powr_minus)
  then show ?thesis by (simp only: pow_400)
qed

lemma rnd_pow_400: "rnd (10 ^ 400) = PInf"
  by (simp add: rnd_def OVERFLOW_THRESHOLD_def)

lemma rnd_pow_m400: "rnd (inverse (10 ^ 400)) = Fin 0"
  by (simp add: rnd_def OVERFLOW_THRESHOLD_def UNDERFLOW_THRESHOLD_def)

section \<open>Facts about the doubles\<close>






lemma power_split:
  fixes n k :: nat
  assumes "n \<le> k"
  shows "(2::int) ^ k = 2 ^ (k - n) * 2 ^ n"
  using assms by (simp flip: power_add)

lemma not_representable_odd:
  assumes "odd X" and "2 ^ 53 \<le> X"
  shows "\<not> representable (of_int X)"
proof
  assume "representable (of_int X)"
  then obtain m :: int and k :: nat
    where m: "\<bar>m\<bar> < 2 ^ 53" and x: "(of_int X :: real) = of_int m * 2 ^ k / 2 ^ 1074"
    by (auto simp add: representable_def)
  from x have "(of_int X :: real) * 2 ^ 1074 = of_int m * 2 ^ k" by (simp add: field_simps)
  then have "(of_int (X * 2 ^ 1074) :: real) = of_int (m * 2 ^ k)" by simp
  then have e: "X * 2 ^ 1074 = m * 2 ^ k" by (simp only: of_int_eq_iff)
  show False
  proof (cases "k \<le> 1074")
    case True
    then have "(2::int) ^ 1074 = 2 ^ (1074 - k) * 2 ^ k" by (rule power_split)
    with e have "(X * 2 ^ (1074 - k)) * 2 ^ k = m * 2 ^ k" by (simp only: mult.assoc)
    then have "m = X * 2 ^ (1074 - k)" by simp
    moreover have "X * 1 \<le> X * 2 ^ (1074 - k)"
      using assms(2) by (intro mult_left_mono) simp_all
    ultimately have "X \<le> m" by simp
    with assms(2) m show False by simp
  next
    case False
    then have "1074 \<le> k" by simp
    then have "(2::int) ^ k = 2 ^ (k - 1074) * 2 ^ 1074" by (rule power_split)
    with e have "X * 2 ^ 1074 = (m * 2 ^ (k - 1074)) * 2 ^ 1074" by (simp only: mult.assoc)
    then have "X = m * 2 ^ (k - 1074)" by simp
    moreover have "even ((2::int) ^ (k - 1074))" using False by simp
    ultimately have "even X" by simp
    with assms(1) show False by simp
  qed
qed

text \<open>
  The range from \<open>10^16\<close> to \<open>10^16 + 2\<close> with the relative value 0.5 is outside
  \<open>linear_exact\<close>: the data value \<open>10^16 + 1\<close> is not a double, and the program rounds it
  to \<open>10^16\<close>.
\<close>

lemma linear_exact_excludes_rounding:
  "\<not> linear_exact 10000000000000000 10000000000000002 (1/2) False"
proof -
  have "\<not> representable (of_int 10000000000000001)"
    by (rule not_representable_odd) simp_all
  then show ?thesis by (simp add: linear_exact_def)
qed

section \<open>The absolute transforms\<close>

text \<open>
  C7. On an axis whose scale kind is linear, \<open>dataPointToScaledValue\<close> and
  \<open>scaledValueToDataPoint\<close> both return their argument unchanged (for every Number, the
  finite ones in particular).
\<close>

theorem linear_absolute_identity:
  "\<not> logscale g axis \<Longrightarrow>
     dataPointToScaledValue g axis v = v \<and> scaledValueToDataPoint g axis v = v"
  by (simp add: dataPointToScaledValue_def scaledValueToDataPoint_def)

theorem linear_absolute_identity_witness:
  "\<not> logscale (stub_graph False) 0 \<and>
   dataPointToScaledValue (stub_graph False) 0 (Fin 3) = Fin 3 \<and>
   scaledValueToDataPoint (stub_graph False) 0 (Fin 3) = Fin 3"
  using linear_absolute_identity [of "stub_graph False" 0 "Fin 3"] by simp

text \<open>
  C8. On an axis with logarithmic scale kind, \<open>dataPointToScaledValue\<close> returns \<open>log10(v)\<close>
  and \<open>scaledValueToDataPoint\<close> returns \<open>10^sv\<close>, and for every positive \<open>v\<close> (a finite
  value within the range of the doubles, or positive infinity) converting to the scaled value
  and back gives \<open>v\<close> again.  Finite arithmetic is exact in the model, so the tolerance of the
  claim is zero here.
\<close>

theorem log_absolute_round_trip:
  "logscale g axis \<Longrightarrow>
     dataPointToScaledValue g axis v = log10 v \<and>
     scaledValueToDataPoint g axis sv = Math_pow_10 sv \<and>
     (0 < x \<and> in_range x \<longrightarrow>
        scaledValueToDataPoint g axis (dataPointToScaledValue g axis (Fin x)) = Fin x) \<and>
     scaledValueToDataPoint g axis (dataPointToScaledValue g axis PInf) = PInf"
  by (simp add: dataPointToScaledValue_def scaledValueToDataPoint_def rnd_in_range)

theorem log_absolute_round_trip_witness:
  "logscale (stub_graph True) 0 \<and> (0::real) < 100 \<and> in_range 100 \<and>
   dataPointToScaledValue (stub_graph True) 0 (Fin 100) = Fin 2 \<and>
   scaledValueToDataPoint (stub_graph True) 0
     (dataPointToScaledValue (stub_graph True) 0 (Fin 100)) = Fin 100"
proof -
  have l: "logscale (stub_graph True) 0" by simp
  have r: "(0::real) < 100 \<and> in_range 100"
    by (simp add: in_range_def OVERFLOW_THRESHOLD_def UNDERFLOW_THRESHOLD_def)
  have v: "log10 (Fin 100) = Fin 2" by (simp add: log10_100)
  show ?thesis
    using l r v log_absolute_round_trip [of "stub_graph True" 0 "Fin 100" "Fin 2" 100, OF l]
    by metis
qed

text \<open>
  C9 as stated fails: on an axis with logarithmic scale kind the finite scaled value 400
  gives positive infinity, which is not finite, and the finite scaled value \<open>-400\<close> gives
  zero, which is not strictly positive.
\<close>

theorem log_scaled_value_counterexample:
  "logscale (stub_graph True) 0 \<and> isFinite (Fin 400) \<and>
   scaledValueToDataPoint (stub_graph True) 0 (Fin 400) = PInf \<and>
   \<not> isFinite (scaledValueToDataPoint (stub_graph True) 0 (Fin 400)) \<and>
   isFinite (Fin (- 400)) \<and>
   scaledValueToDataPoint (stub_graph True) 0 (Fin (- 400)) = Fin 0 \<and>
   \<not> finite_positive (scaledValueToDataPoint (stub_graph True) 0 (Fin (- 400)))"
proof -
  have a: "scaledValueToDataPoint (stub_graph True) 0 (Fin 400) = PInf"
    by (simp only: scaledValueToDataPoint_def stub_graph_logscale not_True_eq_False if_False
        Math_pow_10.simps pow_400 rnd_pow_400)
  have b: "scaledValueToDataPoint (stub_graph True) 0 (Fin (- 400)) = Fin 0"
    by (simp only: scaledValueToDataPoint_def stub_graph_logscale not_True_eq_False if_False
        Math_pow_10.simps pow_m400 rnd_pow_m400)
  show ?thesis by (simp add: a b)
qed

text \<open>
  C9, amended. On an axis with logarithmic scale kind and for every finite \<open>sv\<close>,
  \<open>scaledValueToDataPoint(sv)\<close> is never NaN and never negative infinity; it is a finite and
  strictly positive number, namely \<open>10^sv\<close>, exactly when \<open>10^sv\<close> lies strictly between
  half the least subnormal double and the overflow threshold of the doubles; from the
  threshold on it is positive infinity, and at or below half the least subnormal it is zero.
\<close>

theorem log_scaled_value_range:
  "logscale g axis \<Longrightarrow>
     finite_positive (scaledValueToDataPoint g axis (Fin y)) =
       (UNDERFLOW_THRESHOLD < 10 powr y \<and> 10 powr y < OVERFLOW_THRESHOLD) \<and>
     (UNDERFLOW_THRESHOLD < 10 powr y \<and> 10 powr y < OVERFLOW_THRESHOLD \<longrightarrow>
        scaledValueToDataPoint g axis (Fin y) = Fin (10 powr y)) \<and>
     (OVERFLOW_THRESHOLD \<le> 10 powr y \<longrightarrow> scaledValueToDataPoint g axis (Fin y) = PInf) \<and>
     (10 powr y \<le> UNDERFLOW_THRESHOLD \<longrightarrow> scaledValueToDataPoint g axis (Fin y) = Fin 0) \<and>
     scaledValueToDataPoint g axis (Fin y) \<noteq> NaN \<and>
     scaledValueToDataPoint g axis (Fin y) \<noteq> NInf"
proof -
  assume l: "logscale g axis"
  have p: "0 < (10::real) powr y" by simp
  have o: "(0::real) < OVERFLOW_THRESHOLD" "(0::real) < UNDERFLOW_THRESHOLD"
    "UNDERFLOW_THRESHOLD < OVERFLOW_THRESHOLD"
    by (simp_all add: OVERFLOW_THRESHOLD_def UNDERFLOW_THRESHOLD_def)
  show ?thesis
    using l p o by (auto simp add: scaledValueToDataPoint_def rnd_def simp del: powr_gt_zero)
qed

theorem log_scaled_value_range_witness:
  "logscale (stub_graph True) 0 \<and>
   UNDERFLOW_THRESHOLD < 10 powr 2 \<and> 10 powr 2 < OVERFLOW_THRESHOLD \<and>
   scaledValueToDataPoint (stub_graph True) 0 (Fin 2) = Fin 100 \<and>
   finite_positive (scaledValueToDataPoint (stub_graph True) 0 (Fin 2))"
proof -
  have l: "logscale (stub_graph True) 0" by simp
  have r: "UNDERFLOW_THRESHOLD < 10 powr 2 \<and> 10 powr 2 < OVERFLOW_THRESHOLD"
    by (simp add: OVERFLOW_THRESHOLD_def UNDERFLOW_THRESHOLD_def)
  have v: "(10::real) powr 2 = 100" by simp
  show ?thesis
    using l r v log_scaled_value_range [of "stub_graph True" 0 2, OF l] by metis
qed

section \<open>The range-bound transforms\<close>

text \<open>
  C2. On an axis with linear scale kind \<open>relativeScaledValueToDataPoint\<close> returns
  \<open>range_start + rsv * (range_end - range_start)\<close> when \<open>invert\<close> is false and
  \<open>range_end - rsv * (range_end - range_start)\<close> when it is true; for the range from 0 to
  100 and \<open>rsv = 0.25\<close> that is 25, and 75 when inverted.
\<close>

theorem linear_range_value:
  "\<not> logscale g axis \<Longrightarrow>
     relativeScaledValueToDataPoint g axis rsv range_start range_end False
       = jadd range_start (jmul rsv (jsub range_end range_start)) \<and>
     relativeScaledValueToDataPoint g axis rsv range_start range_end True
       = jsub range_end (jmul rsv (jsub range_end range_start)) \<and>
     relativeScaledValueToDataPoint g axis (Fin (1/4)) (Fin 0) (Fin 100) False = Fin 25 \<and>
     relativeScaledValueToDataPoint g axis (Fin (1/4)) (Fin 0) (Fin 100) True = Fin 75"
  by (simp add: relativeScaledValueToDataPoint_def rnd_def OVERFLOW_THRESHOLD_def
      UNDERFLOW_THRESHOLD_def)

theorem linear_range_value_witness:
  "\<not> logscale (stub_graph False) 0 \<and>
   relativeScaledValueToDataPoint (stub_graph False) 0 (Fin (1/4)) (Fin 0) (Fin 100) False
     = Fin 25 \<and>
   relativeScaledValueToDataPoint (stub_graph False) 0 (Fin (1/4)) (Fin 0) (Fin 100) True
     = Fin 75"
proof -
  have l: "\<not> logscale (stub_graph False) 0" by simp
  show ?thesis
    using l linear_range_value [of "stub_graph False" 0 "Fin (1/4)" "Fin 0" "Fin 100", OF l]
    by blast
qed

text \<open>
  C3. On an axis with logarithmic scale kind \<open>relativeScaledValueToDataPoint\<close> returns
  \<open>logRangeFraction(range_start, range_end, rsv)\<close> when \<open>invert\<close> is false and
  \<open>logRangeFraction(range_end, range_start, rsv)\<close> when it is true; for the range from 1
  to 100, not inverted, and \<open>rsv = 0.5\<close> the result is 10.
\<close>

theorem log_range_value:
  "logscale g axis \<Longrightarrow>
     relativeScaledValueToDataPoint g axis rsv range_start range_end False
       = logRangeFraction range_start range_end rsv \<and>
     relativeScaledValueToDataPoint g axis rsv range_start range_end True
       = logRangeFraction range_end range_start rsv \<and>
     relativeScaledValueToDataPoint g axis (Fin (1/2)) (Fin 1) (Fin 100) False = Fin 10"
  by (simp add: relativeScaledValueToDataPoint_def logRangeFraction_def log10_100 rnd_def
      OVERFLOW_THRESHOLD_def UNDERFLOW_THRESHOLD_def)

theorem log_range_value_witness:
  "logscale (stub_graph True) 0 \<and>
   relativeScaledValueToDataPoint (stub_graph True) 0 (Fin (1/2)) (Fin 1) (Fin 100) False
     = Fin 10"
proof -
  have l: "logscale (stub_graph True) 0" by simp
  show ?thesis
    using l log_range_value [of "stub_graph True" 0 "Fin (1/2)" "Fin 1" "Fin 100", OF l]
    by blast
qed

text \<open>
  C4. On an axis with logarithmic scale kind, for every range and both values of \<open>invert\<close>,
  \<open>dataPointToRelativeScaledValue\<close> of a value that is zero or negative (negative infinity
  included) is NaN, so neither infinity.  More generally, whenever the quotient computed in
  the logarithmic branch is not finite the result is NaN, with or without the final
  \<open>1.0 - s\<close>; and without inversion no infinity is ever returned.
\<close>

theorem log_nonpositive_NaN:
  "logscale g axis \<Longrightarrow>
     (x \<le> 0 \<longrightarrow>
        dataPointToRelativeScaledValue g axis (Fin x) range_start range_end invert = NaN) \<and>
     dataPointToRelativeScaledValue g axis NInf range_start range_end invert = NaN \<and>
     (\<not> isFinite (jdiv (jsub (log10 v) (log10 range_start))
          (if jsub (log10 range_end) (log10 range_start) = Fin 0 then Fin 1
           else jsub (log10 range_end) (log10 range_start))) \<longrightarrow>
        dataPointToRelativeScaledValue g axis v range_start range_end invert = NaN) \<and>
     (\<not> invert \<longrightarrow>
        dataPointToRelativeScaledValue g axis v range_start range_end invert \<noteq> PInf \<and>
        dataPointToRelativeScaledValue g axis v range_start range_end invert \<noteq> NInf)"
proof (intro conjI impI)
  assume l: "logscale g axis"
  have norm: "\<And>v. \<not> isFinite (jdiv (jsub (log10 v) (log10 range_start))
          (if jsub (log10 range_end) (log10 range_start) = Fin 0 then Fin 1
           else jsub (log10 range_end) (log10 range_start))) \<Longrightarrow>
        dataPointToRelativeScaledValue g axis v range_start range_end invert = NaN"
    using l by (simp add: dataPointToRelativeScaledValue_def Let_def)
  { assume "x \<le> 0"
    then have "\<not> isFinite (log10 (Fin x))" by simp
    then show "dataPointToRelativeScaledValue g axis (Fin x) range_start range_end invert = NaN"
      by (intro norm jdiv_nonfinite jsub_nonfinite) }
  have "\<not> isFinite (log10 NInf)" by simp
  then show "dataPointToRelativeScaledValue g axis NInf range_start range_end invert = NaN"
    by (intro norm jdiv_nonfinite jsub_nonfinite)
  { assume "\<not> isFinite (jdiv (jsub (log10 v) (log10 range_start))
          (if jsub (log10 range_end) (log10 range_start) = Fin 0 then Fin 1
           else jsub (log10 range_end) (log10 range_start)))"
    then show "dataPointToRelativeScaledValue g axis v range_start range_end invert = NaN"
      by (rule norm) }
  { assume n: "\<not> invert"
    then show "dataPointToRelativeScaledValue g axis v range_start range_end invert \<noteq> PInf"
      using l by (auto simp add: dataPointToRelativeScaledValue_def Let_def)
    from n show "dataPointToRelativeScaledValue g axis v range_start range_end invert \<noteq> NInf"
      using l by (auto simp add: dataPointToRelativeScaledValue_def Let_def) }
qed

theorem log_nonpositive_NaN_witness:
  "logscale (stub_graph True) 0 \<and> (0::real) \<le> 0 \<and>
   dataPointToRelativeScaledValue (stub_graph True) 0 (Fin 0) (Fin 1) (Fin 100) True = NaN \<and>
   \<not> isFinite (jdiv (jsub (log10 (Fin 0)) (log10 (Fin 1)))
      (if jsub (log10 (Fin 100)) (log10 (Fin 1)) = Fin 0 then Fin 1
       else jsub (log10 (Fin 100)) (log10 (Fin 1)))) \<and>
   (- 3::real) \<le> 0 \<and> \<not> False \<and>
   dataPointToRelativeScaledValue (stub_graph True) 0 (Fin (- 3)) (Fin 1) (Fin 100) False = NaN \<and>
   dataPointToRelativeScaledValue (stub_graph True) 0 (Fin 10) (Fin 1) (Fin 100) False \<noteq> PInf"
proof -
  have l: "logscale (stub_graph True) 0" by simp
  have q: "\<not> isFinite (jdiv (jsub (log10 (Fin 0)) (log10 (Fin 1)))
      (if jsub (log10 (Fin 100)) (log10 (Fin 1)) = Fin 0 then Fin 1
       else jsub (log10 (Fin 100)) (log10 (Fin 1))))"
    by (simp add: log10_100 rnd_def OVERFLOW_THRESHOLD_def UNDERFLOW_THRESHOLD_def)
  show ?thesis
    using l q
      log_nonpositive_NaN [of "stub_graph True" 0 0 "Fin 1" "Fin 100" True "Fin 0", OF l]
      log_nonpositive_NaN [of "stub_graph True" 0 "- 3" "Fin 1" "Fin 100" False "Fin 10", OF l]
    by simp
qed

text \<open>
  C6. \<open>dataPointToRelativeScaledValue\<close> guards both divisions: when
  \<open>range_end - range_start\<close> is exactly zero the linear branch divides by \<open>1.0\<close>, and when
  \<open>log10(range_end) - log10(range_start)\<close> is exactly zero the logarithmic branch divides
  by \<open>1.0\<close>.  So a zero-width range of finite bounds never gives NaN for a finite value on a
  linear axis, nor for a positive value and positive bounds on a logarithmic axis (the
  difference of whose logarithms does not overflow), and with linear scale kind the value 5
  in the range from 5 to 5, not inverted, gives 0.
\<close>

theorem zero_width_guard:
  "(\<not> logscale g axis \<and> jsub range_end range_start = Fin 0 \<longrightarrow>
      dataPointToRelativeScaledValue g axis v range_start range_end invert =
        (let s = jdiv (jsub v range_start) (Fin 1)
         in if invert then jsub (Fin 1) s else s)) \<and>
   (logscale g axis \<and> jsub (log10 range_end) (log10 range_start) = Fin 0 \<longrightarrow>
      dataPointToRelativeScaledValue g axis v range_start range_end invert =
        (let q = jdiv (jsub (log10 v) (log10 range_start)) (Fin 1);
             s = (if isFinite q then q else NaN)
         in if invert then jsub (Fin 1) s else s)) \<and>
   (\<not> logscale g axis \<longrightarrow>
      dataPointToRelativeScaledValue g axis (Fin x) (Fin a) (Fin a) invert \<noteq> NaN) \<and>
   (logscale g axis \<and> 0 < a \<and> 0 < x \<and> \<bar>log 10 x - log 10 a\<bar> < OVERFLOW_THRESHOLD \<longrightarrow>
      dataPointToRelativeScaledValue g axis (Fin x) (Fin a) (Fin a) invert \<noteq> NaN) \<and>
   (\<not> logscale g axis \<longrightarrow>
      dataPointToRelativeScaledValue g axis (Fin 5) (Fin 5) (Fin 5) False = Fin 0)"
proof (intro conjI impI)
  assume "\<not> logscale g axis \<and> jsub range_end range_start = Fin 0"
  then show "dataPointToRelativeScaledValue g axis v range_start range_end invert =
        (let s = jdiv (jsub v range_start) (Fin 1)
         in if invert then jsub (Fin 1) s else s)"
    by (simp add: dataPointToRelativeScaledValue_def Let_def)
next
  assume "logscale g axis \<and> jsub (log10 range_end) (log10 range_start) = Fin 0"
  then show "dataPointToRelativeScaledValue g axis v range_start range_end invert =
        (let q = jdiv (jsub (log10 v) (log10 range_start)) (Fin 1);
             s = (if isFinite q then q else NaN)
         in if invert then jsub (Fin 1) s else s)"
    by (simp add: dataPointToRelativeScaledValue_def Let_def)
next
  assume "\<not> logscale g axis"
  then show "dataPointToRelativeScaledValue g axis (Fin x) (Fin a) (Fin a) invert \<noteq> NaN"
    by (simp add: dataPointToRelativeScaledValue_def Let_def jdiv_rnd_1 jsub_1_rnd_not_NaN)
next
  assume h: "logscale g axis \<and> 0 < a \<and> 0 < x \<and> \<bar>log 10 x - log 10 a\<bar> < OVERFLOW_THRESHOLD"
  then obtain y where y: "rnd (log 10 x - log 10 a) = Fin y"
    using rnd_cases [of "log 10 x - log 10 a"] by (auto simp add: rnd_def split: if_splits)
  have "jdiv (rnd (log 10 x - log 10 a)) (Fin 1) = Fin y"
    using y jdiv_rnd_1 [of "log 10 x - log 10 a"] by simp
  then have "jdiv (Fin y) (Fin 1) = Fin y" using y by simp
  then show "dataPointToRelativeScaledValue g axis (Fin x) (Fin a) (Fin a) invert \<noteq> NaN"
    using h y by (simp add: dataPointToRelativeScaledValue_def Let_def del: jdiv.simps)
next
  assume "\<not> logscale g axis"
  then show "dataPointToRelativeScaledValue g axis (Fin 5) (Fin 5) (Fin 5) False = Fin 0"
    by (simp add: dataPointToRelativeScaledValue_def Let_def)
qed

theorem zero_width_guard_witness:
  "\<not> logscale (stub_graph False) 0 \<and> jsub (Fin 5) (Fin 5) = Fin 0 \<and>
   dataPointToRelativeScaledValue (stub_graph False) 0 (Fin 5) (Fin 5) (Fin 5) False = Fin 0 \<and>
   logscale (stub_graph True) 0 \<and> jsub (log10 (Fin 10)) (log10 (Fin 10)) = Fin 0 \<and>
   (0::real) < 10 \<and> \<bar>log 10 10 - log 10 10\<bar> < OVERFLOW_THRESHOLD \<and>
   dataPointToRelativeScaledValue (stub_graph True) 0 (Fin 10) (Fin 10) (Fin 10) True \<noteq> NaN"
proof -
  have n: "\<not> logscale (stub_graph False) 0 \<and> jsub (Fin 5) (Fin 5) = Fin 0" by simp
  have l: "logscale (stub_graph True) 0 \<and> jsub (log10 (Fin 10)) (log10 (Fin 10)) = Fin 0"
    by simp
  have h: "(0::real) < 10 \<and> \<bar>log 10 10 - log 10 (10::real)\<bar> < OVERFLOW_THRESHOLD"
    by (simp add: OVERFLOW_THRESHOLD_def)
  show ?thesis
    using n l h
      zero_width_guard [of "stub_graph False" 0 "Fin 5" "Fin 5" "Fin 5" False 5 5]
      zero_width_guard [of "stub_graph True" 0 "Fin 10" "Fin 10" "Fin 10" True 10 10]
    by metis
qed




section \<open>The range-validity check\<close>

text \<open>
  C5. \<open>rangeError\<close> is false on every axis with linear scale kind.  With logarithmic scale
  kind it takes \<open>log_range_width = log10(range_end) - log10(range_start)\<close>, replaced by
  \<open>1.0\<close> when it is exactly zero, and \<open>log_scale = 1.0 / log_range_width\<close>, and is true
  exactly when \<open>log_scale\<close> or \<open>log_range_width\<close> is not finite or is NaN.  For the bounds
  \<open>-1\<close> and 10 it is true with logarithmic and false with linear scale kind; for 1 and 1000
  with logarithmic scale kind it is false.
\<close>

theorem rangeError_cases:
  "(\<not> logscale g axis \<longrightarrow> rangeError g axis range_start range_end = False) \<and>
   (logscale g axis \<longrightarrow>
      rangeError g axis range_start range_end =
        (let w = jsub (log10 range_end) (log10 range_start);
             log_range_width = (if w = Fin 0 then Fin 1 else w);
             log_scale = jdiv (Fin 1) log_range_width
         in \<not> isFinite log_scale \<or> isNaN log_scale \<or>
            \<not> isFinite log_range_width \<or> isNaN log_range_width)) \<and>
   (logscale g axis \<longrightarrow> rangeError g axis (Fin (- 1)) (Fin 10) = True) \<and>
   (\<not> logscale g axis \<longrightarrow> rangeError g axis (Fin (- 1)) (Fin 10) = False) \<and>
   (logscale g axis \<longrightarrow> rangeError g axis (Fin 1) (Fin 1000) = False)"
  by (simp add: rangeError_def Let_def log10_1000 rnd_def OVERFLOW_THRESHOLD_def
      UNDERFLOW_THRESHOLD_def)

theorem rangeError_cases_witness:
  "logscale (stub_graph True) 0 \<and> \<not> logscale (stub_graph False) 0 \<and>
   rangeError (stub_graph True) 0 (Fin (- 1)) (Fin 10) = True \<and>
   rangeError (stub_graph False) 0 (Fin (- 1)) (Fin 10) = False \<and>
   rangeError (stub_graph True) 0 (Fin 1) (Fin 1000) = False"
proof -
  have l: "logscale (stub_graph True) 0" and n: "\<not> logscale (stub_graph False) 0"
    by simp_all
  show ?thesis
    using l n rangeError_cases [of "stub_graph True" 0 "Fin 1" "Fin 1000"]
      rangeError_cases [of "stub_graph False" 0 "Fin (- 1)" "Fin 10"]
    by blast
qed

text \<open>
  C10. On an axis with logarithmic scale kind \<open>rangeError(b, b)\<close> is false for every finite,
  strictly positive \<open>b\<close>: the width of the logarithms is zero and is replaced by \<open>1.0\<close>
  before the tests.
\<close>

theorem rangeError_zero_width:
  "logscale g axis \<Longrightarrow> 0 < b \<Longrightarrow> rangeError g axis (Fin b) (Fin b) = False"
  by (simp add: rangeError_def Let_def)

theorem rangeError_zero_width_witness:
  "logscale (stub_graph True) 0 \<and> (0::real) < 5 \<and>
   rangeError (stub_graph True) 0 (Fin 5) (Fin 5) = False"
proof -
  have l: "logscale (stub_graph True) 0" and p: "(0::real) < 5" by simp_all
  show ?thesis using l p rangeError_zero_width [OF l p] by blast
qed

end
